theory Spec2Isabelle
  imports Main "HOL-Library.Sublist"
begin

section \<open>Data model of the chat (ChatInterface.tsx)\<close>

text \<open>
  Strings are lists of 8-bit characters. \<open>Date.now()\<close> and \<open>new Date()\<close> are read from
  the platform; the model takes the clock reading (milliseconds, a natural number) as an
  argument of every handler that reads it.
\<close>

datatype role = User | Assistant

record message =
  id_m :: string
  role :: role
  content :: string
  timestamp :: nat

text \<open>The type \<open>'pending' | 'completed'\<close> of the field \<open>status\<close>.\<close>

datatype status = Pending | Completed

text \<open>The string literal a status value is at run time.\<close>

fun status_literal :: "status \<Rightarrow> string" where
  "status_literal Pending = ''pending''"
| "status_literal Completed = ''completed''"

fun role_literal :: "role \<Rightarrow> string" where
  "role_literal User = ''user''"
| "role_literal Assistant = ''assistant''"

text \<open>
  The interface \<open>Clarification\<close>. The optional field \<open>response\<close> is \<open>None\<close> while it is
  absent or \<open>undefined\<close>.
\<close>

record clarification =
  id_c :: string
  messageId :: string
  selectedText :: string
  request :: string
  response :: "string option"
  status :: status

subsection \<open>Number.prototype.toString on a clock reading\<close>

definition digit_char :: "nat \<Rightarrow> char" where
  "digit_char d = ''0123456789'' ! d"

function toString :: "nat \<Rightarrow> string" where
  "toString n = (if n < 10 then [digit_char n] else toString (n div 10) @ [digit_char (n mod 10)])"
  by pat_completeness auto
termination
  by (relation "measure (\<lambda>n. n)") auto

declare toString.simps [simp del]

text \<open>The number a decimal string denotes (the inverse of \<open>toString\<close>).\<close>

definition digit_value :: "char \<Rightarrow> nat" where
  "digit_value c = of_char c - 48"

definition fromString :: "string \<Rightarrow> nat" where
  "fromString ds = foldl (\<lambda>a c. 10 * a + digit_value c) 0 ds"

subsection \<open>The network reply to POST /api/clarify\<close>

text \<open>The JavaScript \<open>Error\<close> object with its message.\<close>

datatype error = Error string

text \<open>
  What \<open>await fetch(...)\<close> and \<open>await response.json()\<close> produce: the fetch promise
  rejects, or it resolves to a response with its \<open>ok\<close> flag and its body; the body is
  \<open>Inl\<close> the error when \<open>response.json()\<close> rejects, and otherwise holds
  \<open>data.response\<close> (\<open>None\<close> when it is undefined).
\<close>

datatype fetch_result =
    FetchRejected error
  | HttpResponse bool "error + string option"

text \<open>The JSON body of the request sent to /api/clarify.\<close>

record clarify_body =
  body_selectedText :: string
  body_userQuestion :: string
  body_conversationContext :: "string list"

subsection \<open>Component state and its environment\<close>

text \<open>
  The three pieces of React state the clarification handlers use, and the environment they
  act on: the calls of \<open>handleClarificationSubmit\<close> suspended at \<open>await fetch\<close> (each
  closure holds its \<open>clarificationId\<close> and the \<open>clarification\<close> it found), the requests
  sent to /api/clarify, and the lines written with \<open>console.error\<close>.
\<close>

record chat_state =
  messages :: "message list"
  clarifications :: "clarification list"
  activeClarification :: "clarification option"
  inflight :: "(string \<times> clarification) list"
  fetches :: "clarify_body list"
  console :: "string list"

definition initial_messages :: "nat \<Rightarrow> message list" where
  "initial_messages now =
     [\<lparr> id_m = ''1'', role = Assistant,
        content = ''Hello! I'' @ [CHR 0x27] @ ''m here to help. Try asking me about machine learning algorithms or any other topic. You can select text in my responses to get clarifications.'',
        timestamp = now \<rparr>]"

definition initial_state :: "nat \<Rightarrow> chat_state" where
  "initial_state now =
     \<lparr> messages = initial_messages now, clarifications = [], activeClarification = None,
       inflight = [], fetches = [], console = [] \<rparr>"

section \<open>The clarification handlers (ChatInterface.tsx)\<close>

text \<open>The object literal built by \<open>handleTextSelection\<close>.\<close>

definition new_clarification :: "nat \<Rightarrow> string \<Rightarrow> string \<Rightarrow> clarification" where
  "new_clarification now mid txt =
     \<lparr> id_c = toString now, messageId = mid, selectedText = txt, request = [],
       response = None, status = Pending \<rparr>"

definition handleTextSelection :: "nat \<Rightarrow> string \<Rightarrow> string \<Rightarrow> chat_state \<Rightarrow> chat_state" where
  "handleTextSelection now mid txt s =
     (let c = new_clarification now mid txt
      in s\<lparr> clarifications := clarifications s @ [c], activeClarification := Some c \<rparr>)"

text \<open>\<open>messages.slice(-5).map(m => `${m.role}: ${m.content}`)\<close>\<close>

definition conversationContext :: "message list \<Rightarrow> string list" where
  "conversationContext ms =
     map (\<lambda>m. role_literal (role m) @ '': '' @ content m) (drop (length ms - 5) ms)"

text \<open>
  \<open>handleClarificationSubmit\<close> up to its first \<open>await\<close>: the lookup with its early return,
  the first \<open>setClarifications\<close>, and the request handed to \<open>fetch\<close>. The call never
  throws: the result is always \<open>Inr\<close>.
\<close>

definition handleClarificationSubmit ::
  "string \<Rightarrow> string \<Rightarrow> chat_state \<Rightarrow> error + chat_state" where
  "handleClarificationSubmit clarificationId req s =
     (case find (\<lambda>c. id_c c = clarificationId) (clarifications s) of
        None \<Rightarrow> Inr s
      | Some found \<Rightarrow>
          Inr (s\<lparr> clarifications :=
                    map (\<lambda>c. if id_c c = clarificationId
                              then c\<lparr> status := Pending, request := req \<rparr> else c)
                        (clarifications s),
                  fetches := fetches s @
                    [\<lparr> body_selectedText = selectedText found, body_userQuestion = req,
                       body_conversationContext = conversationContext (messages s) \<rparr>],
                  inflight := inflight s @ [(clarificationId, found)] \<rparr>))"

text \<open>
  The body of the \<open>try\<close> block after the fetch settles: it throws when the fetch rejected,
  when the response is not ok, and when the body cannot be read.
\<close>

definition try_body :: "fetch_result \<Rightarrow> error + string option" where
  "try_body r =
     (case r of
        FetchRejected e \<Rightarrow> Inl e
      | HttpResponse ok body \<Rightarrow>
          if \<not> ok then Inl (Error ''Failed to get clarification'')
          else (case body of Inl e \<Rightarrow> Inl e | Inr d \<Rightarrow> Inr d))"

text \<open>The two state updates after \<open>const data = await response.json()\<close>.\<close>

definition on_success :: "string \<Rightarrow> clarification \<Rightarrow> string option \<Rightarrow> chat_state \<Rightarrow> chat_state" where
  "on_success clarificationId found data_response s =
     s\<lparr> clarifications :=
          map (\<lambda>c. if id_c c = clarificationId
                    then c\<lparr> response := data_response, status := Completed \<rparr> else c)
              (clarifications s),
        activeClarification :=
          (case activeClarification s of
             None \<Rightarrow> None
           | Some prev \<Rightarrow>
               if id_c prev = clarificationId
               then Some (found\<lparr> response := data_response, status := Completed \<rparr>)
               else Some prev) \<rparr>"

definition error_text :: string where
  "error_text = ''Sorry, I encountered an error while generating this clarification. Please try again.''"

text \<open>The \<open>catch\<close> block.\<close>

definition on_error :: "string \<Rightarrow> chat_state \<Rightarrow> chat_state" where
  "on_error clarificationId s =
     s\<lparr> console := console s @ [''Failed to get clarification:''],
        clarifications :=
          map (\<lambda>c. if id_c c = clarificationId
                    then c\<lparr> response := Some error_text, status := Completed \<rparr> else c)
              (clarifications s) \<rparr>"

text \<open>
  A suspended call resumes with the fetch result: the rest of the \<open>try\<close> block, or the
  \<open>catch\<close> block.
\<close>

definition resume :: "string \<times> clarification \<Rightarrow> fetch_result \<Rightarrow> chat_state \<Rightarrow> chat_state" where
  "resume p r s =
     (case try_body r of
        Inr d \<Rightarrow> on_success (fst p) (snd p) d s
      | Inl e \<Rightarrow> on_error (fst p) s)"

definition setActiveClarification :: "clarification option \<Rightarrow> chat_state \<Rightarrow> chat_state" where
  "setActiveClarification v s = s\<lparr> activeClarification := v \<rparr>"

definition handleCloseClarification :: "chat_state \<Rightarrow> chat_state" where
  "handleCloseClarification s = setActiveClarification None s"

section \<open>The panel's submit handler (ClarificationPanel.tsx)\<close>

text \<open>
  The white space that \<open>String.prototype.trim\<close> strips, among the 8-bit characters:
  tab, line feed, vertical tab, form feed, carriage return, space and no-break space.
\<close>

definition is_space :: "char \<Rightarrow> bool" where
  "is_space c = (let n = (of_char c :: nat)
                 in n = 9 \<or> n = 10 \<or> n = 11 \<or> n = 12 \<or> n = 13 \<or> n = 32 \<or> n = 160)"

definition trim :: "string \<Rightarrow> string" where
  "trim str = rev (dropWhile is_space (rev (dropWhile is_space str)))"

text \<open>
  \<open>handleSubmit\<close> of the panel showing the clarification \<open>shown\<close>, with the text box
  holding \<open>draft\<close>: the new content of the text box and the new state. \<open>onSubmit\<close> is
  \<open>handleClarificationSubmit\<close>, an async function, so the text box is cleared however the
  call ends.
\<close>

definition panel_handleSubmit :: "clarification \<Rightarrow> string \<Rightarrow> chat_state \<Rightarrow> string \<times> chat_state" where
  "panel_handleSubmit shown draft s =
     (if trim draft \<noteq> []
      then (case handleClarificationSubmit (id_c shown) draft s of
              Inr s' \<Rightarrow> ([], s')
            | Inl e \<Rightarrow> ([], s))
      else (draft, s))"

section \<open>Selection capture in an assistant message (AIMessage.tsx)\<close>









section \<open>Runs of the clarification handlers\<close>

text \<open>
  The event loop runs one handler at a time. An event is a call of \<open>handleTextSelection\<close>
  (with the clock reading), a call of \<open>onSubmit\<close>, a submit from the panel showing the
  active clarification, the resumption of the suspended call number \<open>i\<close> with the result of
  its fetch, or a close of the panel.
\<close>

datatype event =
    TextSelection nat string string
  | Submit string string
  | PanelSubmit string
  | Resume nat fetch_result
  | Close

fun step :: "event \<Rightarrow> chat_state \<Rightarrow> chat_state" where
  "step (TextSelection now mid txt) s = handleTextSelection now mid txt s"
| "step (Submit clarificationId req) s =
     (case handleClarificationSubmit clarificationId req s of Inr s' \<Rightarrow> s' | Inl e \<Rightarrow> s)"
| "step (PanelSubmit draft) s =
     (case activeClarification s of
        None \<Rightarrow> s
      | Some shown \<Rightarrow> snd (panel_handleSubmit shown draft s))"
| "step (Resume i r) s =
     (if i < length (inflight s)
      then resume (inflight s ! i) r (s\<lparr> inflight := take i (inflight s) @ drop (Suc i) (inflight s) \<rparr>)
      else s)"
| "step Close s = handleCloseClarification s"

fun run :: "event list \<Rightarrow> chat_state \<Rightarrow> chat_state" where
  "run [] s = s"
| "run (e # es) s = run es (step e s)"

text \<open>The id for which an event starts a submission, and the id whose submission it ends.\<close>

fun starts :: "event \<Rightarrow> chat_state \<Rightarrow> string option" where
  "starts (Submit clarificationId req) s = Some clarificationId"
| "starts (PanelSubmit draft) s =
     (case activeClarification s of
        None \<Rightarrow> None
      | Some shown \<Rightarrow> if trim draft \<noteq> [] then Some (id_c shown) else None)"
| "starts e s = None"

fun ends :: "event \<Rightarrow> chat_state \<Rightarrow> string option" where
  "ends (Resume i r) s = (if i < length (inflight s) then Some (fst (inflight s ! i)) else None)"
| "ends e s = None"

text \<open>The clock readings of the creations in a run, in order.\<close>

fun clock_readings :: "event list \<Rightarrow> nat list" where
  "clock_readings [] = []"
| "clock_readings (TextSelection now mid txt # es) = now # clock_readings es"
| "clock_readings (e # es) = clock_readings es"

text \<open>
  The events that the user interface produces: \<open>onSubmit\<close> is called by the panel's
  \<open>handleSubmit\<close> only.
\<close>

fun ui_event :: "event \<Rightarrow> bool" where
  "ui_event (Submit clarificationId req) = False"
| "ui_event e = True"

section \<open>What the panel presents, and a consistency invariant\<close>

text \<open>
  \<open>ClarificationPanel\<close> receives \<open>activeClarification\<close> as its only clarification and
  renders nothing when it is null: the clarifications presented to the user.
\<close>

definition presented :: "chat_state \<Rightarrow> clarification list" where
  "presented s = (case activeClarification s of None \<Rightarrow> [] | Some c \<Rightarrow> [c])"

text \<open>
  Every suspended call holds a clarification with the id it was called with, and the active
  clarification carries the id of a stored one.
\<close>

definition consistent :: "chat_state \<Rightarrow> bool" where
  "consistent s \<longleftrightarrow>
     list_all (\<lambda>p. id_c (snd p) = fst p) (inflight s) \<and>
     (case activeClarification s of None \<Rightarrow> True | Some a \<Rightarrow> id_c a \<in> id_c ` set (clarifications s))"

text \<open>
  No request sent to /api/clarify is blank, and no stored request is blank unless it is the
  empty request that a clarification is created with.
\<close>

definition no_blank_request :: "chat_state \<Rightarrow> bool" where
  "no_blank_request s \<longleftrightarrow>
     list_all (\<lambda>b. trim (body_userQuestion b) \<noteq> []) (fetches s) \<and>
     list_all (\<lambda>c. request c = [] \<or> trim (request c) \<noteq> []) (clarifications s)"

section \<open>Auxiliary facts\<close>

subsection \<open>Decimal strings\<close>


lemma digit_value_digit_char: "d < 10 \<Longrightarrow> digit_value (digit_char d) = d"
proof -
  assume "d < 10"
  then have "d \<in> {0, 1, 2, 3, 4, 5, 6, 7, 8, 9}"
    by auto
  then show ?thesis
    by (auto simp: digit_value_def digit_char_def)
qed

lemma fromString_snoc: "fromString (ds @ [c]) = 10 * fromString ds + digit_value c"
  by (simp add: fromString_def)

lemma fromString_toString: "fromString (toString n) = n"
proof (induction n rule: toString.induct)
  case (1 n)
  show ?case
  proof (cases "n < 10")
    case True
    then show ?thesis
      by (subst toString.simps) (simp add: fromString_def digit_value_digit_char)
  next
    case False
    then have "fromString (toString (n div 10)) = n div 10"
      using "1.IH" by simp
    with False show ?thesis
      by (subst toString.simps) (simp add: fromString_snoc digit_value_digit_char)
  qed
qed

subsection \<open>The ids of the stored clarifications\<close>

lemma map_id_c_update:
  "(\<And>c. id_c (f c) = id_c c) \<Longrightarrow> map id_c (map (\<lambda>c. if id_c c = k then f c else c) cs) = map id_c cs"
  by (induction cs) auto

lemma handleClarificationSubmit_unknown:
  "find (\<lambda>c. id_c c = k) (clarifications s) = None \<Longrightarrow> handleClarificationSubmit k req s = Inr s"
  by (simp add: handleClarificationSubmit_def)

lemma handleClarificationSubmit_known:
  "find (\<lambda>c. id_c c = k) (clarifications s) = Some found \<Longrightarrow>
   handleClarificationSubmit k req s =
     Inr (s\<lparr> clarifications :=
              map (\<lambda>c. if id_c c = k then c\<lparr> status := Pending, request := req \<rparr> else c) (clarifications s),
            fetches := fetches s @
              [\<lparr> body_selectedText = selectedText found, body_userQuestion = req,
                 body_conversationContext = conversationContext (messages s) \<rparr>],
            inflight := inflight s @ [(k, found)] \<rparr>)"
  by (simp add: handleClarificationSubmit_def)

lemma ids_handleClarificationSubmit:
  "handleClarificationSubmit k req s = Inr s' \<Longrightarrow> map id_c (clarifications s') = map id_c (clarifications s)"
  by (auto simp: handleClarificationSubmit_def map_id_c_update split: option.splits)

lemma ids_resume: "map id_c (clarifications (resume p r s)) = map id_c (clarifications s)"
  by (simp add: resume_def on_success_def on_error_def map_id_c_update split: sum.splits)

lemma ids_step:
  "map id_c (clarifications (step e s)) = map id_c (clarifications s) @ map toString (clock_readings [e])"
proof (cases e)
  case (TextSelection now mid seltext)
  then show ?thesis
    by (simp add: handleTextSelection_def new_clarification_def Let_def)
next
  case (Submit k req)
  then show ?thesis
    by (auto split: sum.splits dest: ids_handleClarificationSubmit)
next
  case (PanelSubmit draft)
  then show ?thesis
    by (auto simp: panel_handleSubmit_def split: option.splits sum.splits dest: ids_handleClarificationSubmit)
next
  case (Resume i r)
  then show ?thesis
    by (simp add: ids_resume)
next
  case Close
  then show ?thesis
    by (simp add: handleCloseClarification_def setActiveClarification_def)
qed

lemma clock_readings_Cons: "clock_readings (e # es) = clock_readings [e] @ clock_readings es"
  by (cases e) simp_all

lemma ids_run:
  "map id_c (clarifications (run es s)) = map id_c (clarifications s) @ map toString (clock_readings es)"
proof (induction es arbitrary: s)
  case Nil
  show ?case by simp
next
  case (Cons e es)
  have "map id_c (clarifications (run (e # es) s))
        = map id_c (clarifications (step e s)) @ map toString (clock_readings es)"
    using Cons.IH [of "step e s"] by simp
  also have "\<dots> = map id_c (clarifications s) @ map toString (clock_readings [e]) @ map toString (clock_readings es)"
    by (simp add: ids_step)
  also have "\<dots> = map id_c (clarifications s) @ map toString (clock_readings (e # es))"
    by (subst (2) clock_readings_Cons) simp
  finally show ?case .
qed

subsection \<open>What one event does to a stored clarification\<close>

lemma clarifications_handleTextSelection:
  "clarifications (handleTextSelection now mid seltext s) = clarifications s @ [new_clarification now mid seltext]"
  by (simp add: handleTextSelection_def Let_def)

lemma active_handleTextSelection:
  "activeClarification (handleTextSelection now mid seltext s) = Some (new_clarification now mid seltext)"
  by (simp add: handleTextSelection_def Let_def)

lemma clarifications_resume:
  "clarifications (resume p r s) =
     map (\<lambda>c. if id_c c = fst p
               then c\<lparr> response := (case try_body r of Inr d \<Rightarrow> d | Inl e \<Rightarrow> Some error_text),
                      status := Completed \<rparr>
               else c) (clarifications s)"
  by (simp add: resume_def on_success_def on_error_def split: sum.splits)

lemma clarifications_submit:
  "handleClarificationSubmit k req s = Inr s' \<Longrightarrow>
   clarifications s' =
     (if find (\<lambda>c. id_c c = k) (clarifications s) = None then clarifications s
      else map (\<lambda>c. if id_c c = k then c\<lparr> status := Pending, request := req \<rparr> else c) (clarifications s))"
  by (auto simp: handleClarificationSubmit_def split: option.splits)

lemma submit_total: "\<exists>s'. handleClarificationSubmit k req s = Inr s'"
  by (simp add: handleClarificationSubmit_def split: option.splits)

lemma step_transition:
  assumes i: "i < length (clarifications s)"
  shows "id_c (clarifications (step e s) ! i) = id_c (clarifications s ! i) \<and>
         (status (clarifications (step e s) ! i) = status (clarifications s ! i)
          \<or> status (clarifications (step e s) ! i) = Pending \<and> starts e s = Some (id_c (clarifications s ! i))
          \<or> status (clarifications (step e s) ! i) = Completed \<and> ends e s = Some (id_c (clarifications s ! i)))"
proof (cases e)
  case (TextSelection now mid seltext)
  with i show ?thesis
    by (simp add: clarifications_handleTextSelection nth_append)
next
  case (Submit k req)
  obtain s' where s': "handleClarificationSubmit k req s = Inr s'"
    using submit_total by blast
  from i show ?thesis
    by (simp add: Submit s' clarifications_submit [OF s'])
next
  case (PanelSubmit draft)
  show ?thesis
  proof (cases "activeClarification s")
    case None
    with PanelSubmit show ?thesis by simp
  next
    case (Some shown)
    obtain s' where s': "handleClarificationSubmit (id_c shown) draft s = Inr s'"
      using submit_total by blast
    from i show ?thesis
      by (simp add: PanelSubmit Some panel_handleSubmit_def s' clarifications_submit [OF s'])
  qed
next
  case (Resume j r)
  with i show ?thesis
    by (simp add: clarifications_resume)
next
  case Close
  then show ?thesis
    by (simp add: handleCloseClarification_def setActiveClarification_def)
qed

lemma status_literal_cases: "status_literal st \<in> {''pending'', ''completed''}"
  by (cases st) simp_all


subsection \<open>The consistency invariant\<close>

lemma find_id: "find (\<lambda>c. id_c c = k) cs = Some found \<Longrightarrow> id_c found = k"
  by (induction cs) (auto split: if_splits)

lemma inflight_submit:
  "handleClarificationSubmit k req s = Inr s' \<Longrightarrow>
   \<forall>p \<in> set (inflight s). id_c (snd p) = fst p \<Longrightarrow>
   \<forall>p \<in> set (inflight s'). id_c (snd p) = fst p"
proof (cases "find (\<lambda>c. id_c c = k) (clarifications s)")
  case None
  assume "handleClarificationSubmit k req s = Inr s'" and "\<forall>p \<in> set (inflight s). id_c (snd p) = fst p"
  with None show ?thesis
    by (simp add: handleClarificationSubmit_def)
next
  case (Some found)
  assume "handleClarificationSubmit k req s = Inr s'"
  with Some have "inflight s' = inflight s @ [(k, found)]"
    by (auto simp: handleClarificationSubmit_def)
  moreover assume "\<forall>p \<in> set (inflight s). id_c (snd p) = fst p"
  moreover have "id_c found = k"
    using Some by (rule find_id)
  ultimately show ?thesis
    by auto
qed

lemma active_submit:
  "handleClarificationSubmit k req s = Inr s' \<Longrightarrow> activeClarification s' = activeClarification s"
  by (auto simp: handleClarificationSubmit_def split: option.splits)

lemma inflight_resume: "inflight (resume p r s) = inflight s"
  by (simp add: resume_def on_success_def on_error_def split: sum.splits)

lemma active_resume:
  "activeClarification (resume p r s) = Some a \<Longrightarrow>
   activeClarification s = Some a \<or> (\<exists>prev. activeClarification s = Some prev \<and> id_c prev = fst p \<and> id_c a = id_c (snd p))"
  by (auto simp: resume_def on_success_def on_error_def split: sum.splits option.splits if_splits)

lemma consistent_initial: "consistent (initial_state t0)"
  by (simp add: consistent_def initial_state_def)

lemma consistent_submit:
  assumes "consistent s" and s': "handleClarificationSubmit k req s = Inr s'"
  shows "consistent s'"
proof -
  have "id_c ` set (clarifications s') = id_c ` set (clarifications s)"
    using ids_handleClarificationSubmit [OF s'] by (metis set_map)
  then show ?thesis
    using assms inflight_submit [OF s'] active_submit [OF s']
    by (simp add: consistent_def list_all_iff split: option.splits)
qed

lemma consistent_step: "consistent s \<Longrightarrow> consistent (step e s)"
proof (cases e)
  case (TextSelection now mid seltext)
  assume "consistent s"
  then show ?thesis
    by (simp add: TextSelection consistent_def handleTextSelection_def Let_def)
next
  case (Submit k req)
  assume c: "consistent s"
  obtain s' where s': "handleClarificationSubmit k req s = Inr s'"
    using submit_total by blast
  show ?thesis
    using consistent_submit [OF c s'] by (simp add: Submit s')
next
  case (PanelSubmit draft)
  assume c: "consistent s"
  show ?thesis
  proof (cases "activeClarification s")
    case None
    with c PanelSubmit show ?thesis by simp
  next
    case (Some shown)
    obtain s' where s': "handleClarificationSubmit (id_c shown) draft s = Inr s'"
      using submit_total by blast
    show ?thesis
      using consistent_submit [OF c s'] c by (simp add: PanelSubmit Some panel_handleSubmit_def s')
  qed
next
  case (Resume j r)
  assume c: "consistent s"
  show ?thesis
  proof (cases "j < length (inflight s)")
    case False
    with c Resume show ?thesis by simp
  next
    case True
    let ?p = "inflight s ! j"
    let ?s = "s\<lparr> inflight := take j (inflight s) @ drop (Suc j) (inflight s) \<rparr>"
    have p: "id_c (snd ?p) = fst ?p"
      using c True by (simp add: consistent_def list_all_length)
    have sub: "set (inflight ?s) \<subseteq> set (inflight s)"
      using set_take_subset [of j "inflight s"] set_drop_subset [of "Suc j" "inflight s"] by auto
    have infl: "list_all (\<lambda>p. id_c (snd p) = fst p) (inflight (resume ?p r ?s))"
      using c sub by (auto simp: inflight_resume consistent_def list_all_iff)
    have idset: "id_c ` set (clarifications (resume ?p r ?s)) = id_c ` set (clarifications s)"
      using ids_resume [of ?p r ?s] by (metis chat_state.select_convs(2) chat_state.surjective chat_state.update_convs(4) set_map)
    have act: "case activeClarification (resume ?p r ?s) of None \<Rightarrow> True
               | Some a \<Rightarrow> id_c a \<in> id_c ` set (clarifications (resume ?p r ?s))"
    proof (cases "activeClarification (resume ?p r ?s)")
      case None
      then show ?thesis by simp
    next
      case (Some a)
      from active_resume [OF Some]
      have "id_c a \<in> id_c ` set (clarifications s)"
        using c p by (auto simp: consistent_def)
      then show ?thesis
        by (simp add: Some idset)
    qed
    from infl act show ?thesis
      by (simp add: Resume True consistent_def)
  qed
next
  case Close
  assume "consistent s"
  then show ?thesis
    by (simp add: Close consistent_def handleCloseClarification_def setActiveClarification_def)
qed

lemma consistent_run: "consistent s \<Longrightarrow> consistent (run es s)"
  by (induction es arbitrary: s) (simp_all add: consistent_step)

subsection \<open>Resumptions and snapshots\<close>

lemma length_step_ends:
  "ends e s = Some k \<Longrightarrow> length (clarifications (step e s)) = length (clarifications s)"
  by (cases e) (simp_all add: clarifications_resume split: if_splits)

lemma nth_step_ends:
  "ends e s = Some k \<Longrightarrow> i < length (clarifications s) \<Longrightarrow> id_c (clarifications s ! i) \<noteq> k \<Longrightarrow>
   clarifications (step e s) ! i = clarifications s ! i"
  by (cases e) (auto simp: clarifications_resume split: if_splits)

lemma presented_step_ends:
  "ends e s = Some k \<Longrightarrow> list_all (\<lambda>a. id_c a \<noteq> k) (presented s) \<Longrightarrow>
   presented (step e s) = presented s"
  by (cases e)
    (auto simp: presented_def resume_def on_success_def on_error_def
      split: if_splits option.splits sum.splits)

lemma clarifications_step_Resume_Close:
  "clarifications (step (Resume j r) (handleCloseClarification s)) = clarifications (step (Resume j r) s)"
  by (simp add: handleCloseClarification_def setActiveClarification_def clarifications_resume)

lemma inflight_step_Resume_Close:
  "inflight (step (Resume j r) (handleCloseClarification s)) = inflight (step (Resume j r) s)"
  by (simp add: handleCloseClarification_def setActiveClarification_def inflight_resume)

lemma error_text_nonempty: "error_text \<noteq> []"
  by (simp add: error_text_def)

lemma nth_inflight_submit:
  "find (\<lambda>c. id_c c = k) (clarifications s) = Some found \<Longrightarrow>
   handleClarificationSubmit k req s = Inr s' \<Longrightarrow>
   length (inflight s) < length (inflight s') \<and> inflight s' ! length (inflight s) = (k, found)
   \<and> take (length (inflight s)) (inflight s') @ drop (Suc (length (inflight s))) (inflight s') = inflight s"
  by (auto simp: handleClarificationSubmit_def)

lemma requests_after_update:
  "(\<And>c. request (f c) = req) \<Longrightarrow> (\<And>c. id_c (f c) = id_c c) \<Longrightarrow>
   map request (filter (\<lambda>c. id_c c = k) (map (\<lambda>c. if id_c c = k then f c else c) cs))
     = replicate (length (filter (\<lambda>c. id_c c = k) cs)) req"
  by (induction cs) auto

subsection \<open>Trimming\<close>



subsection \<open>Ranges\<close>



subsection \<open>A resumption after a close\<close>

lemma step_Resume_Close_clarifications:
  "j < length (inflight s) \<Longrightarrow>
   clarifications (step (Resume j r) (handleCloseClarification s))
     = map (\<lambda>c. if id_c c = fst (inflight s ! j)
               then c\<lparr> response := (case try_body r of Inr d \<Rightarrow> d | Inl e \<Rightarrow> Some error_text),
                      status := Completed \<rparr>
               else c) (clarifications s)"
  by (simp add: handleCloseClarification_def setActiveClarification_def clarifications_resume)

lemma step_Resume_Close_inflight:
  "j < length (inflight s) \<Longrightarrow>
   inflight (step (Resume j r) (handleCloseClarification s))
     = take j (inflight s) @ drop (Suc j) (inflight s)"
  by (simp add: handleCloseClarification_def setActiveClarification_def inflight_resume)

lemma step_Resume_Close_presented:
  "presented (step (Resume j r) (handleCloseClarification s)) = []"
  by (simp add: handleCloseClarification_def setActiveClarification_def presented_def
      resume_def on_success_def on_error_def split: sum.splits)

subsection \<open>Requests sent from the user interface\<close>

lemma no_blank_request_initial: "no_blank_request (initial_state t0)"
  by (simp add: no_blank_request_def initial_state_def)

lemma no_blank_request_submit:
  assumes "no_blank_request s" and "trim req \<noteq> []" and "handleClarificationSubmit k req s = Inr s'"
  shows "no_blank_request s'"
  using assms
  by (auto simp: no_blank_request_def handleClarificationSubmit_def list_all_iff split: option.splits)

lemma no_blank_request_resume: "no_blank_request s \<Longrightarrow> no_blank_request (resume p r s)"
  by (auto simp: no_blank_request_def resume_def on_success_def on_error_def list_all_iff
      split: sum.splits)

lemma no_blank_request_step:
  assumes ui: "ui_event e" and inv: "no_blank_request s"
  shows "no_blank_request (step e s)"
proof (cases e)
  case (TextSelection now mid seltext)
  with inv show ?thesis
    by (simp add: no_blank_request_def handleTextSelection_def new_clarification_def Let_def)
next
  case (Submit k req)
  with ui show ?thesis by simp
next
  case (PanelSubmit draft)
  show ?thesis
  proof (cases "activeClarification s")
    case None
    with inv PanelSubmit show ?thesis by simp
  next
    case (Some shown)
    show ?thesis
    proof (cases "trim draft = []")
      case True
      with inv show ?thesis
        by (simp add: PanelSubmit Some panel_handleSubmit_def)
    next
      case False
      obtain s' where s': "handleClarificationSubmit (id_c shown) draft s = Inr s'"
        using submit_total by blast
      have "no_blank_request s'"
        using inv False s' by (rule no_blank_request_submit)
      then show ?thesis
        by (simp add: PanelSubmit Some panel_handleSubmit_def False s')
    qed
  qed
next
  case (Resume j r)
  have "no_blank_request (s\<lparr> inflight := take j (inflight s) @ drop (Suc j) (inflight s) \<rparr>)"
    using inv by (simp add: no_blank_request_def)
  then show ?thesis
    using inv by (simp add: Resume no_blank_request_resume)
next
  case Close
  with inv show ?thesis
    by (simp add: no_blank_request_def handleCloseClarification_def setActiveClarification_def)
qed

lemma no_blank_request_run:
  "list_all ui_event es \<Longrightarrow> no_blank_request s \<Longrightarrow> no_blank_request (run es s)"
  by (induction es arbitrary: s) (simp_all add: no_blank_request_step)

section \<open>The claims\<close>

subsection \<open>C1: the status lifecycle\<close>

text \<open>
  C1, as stated, fails: a clarification is created with the status \<open>'pending'\<close>, which is
  none of created, submitting, completed, failed; and after a submission has succeeded, a
  further submit takes the completed clarification back to pending.
\<close>

theorem created_status_counterexample:
  "status_literal (status (last (clarifications
      (handleTextSelection 1700000000000 ''1'' ''machine learning algorithms'' (initial_state 0)))))
     = ''pending''
   \<and> ''pending'' \<notin> {''created'', ''submitting'', ''completed'', ''failed''}
   \<and> map status (clarifications (run
        [TextSelection 1700000000000 ''1'' ''machine learning algorithms'',
         Submit ''1700000000000'' ''explain simply'',
         Resume 0 (HttpResponse True (Inr (Some ''It is a method to find the best solution step by step.'')))]
        (initial_state 0))) = [Completed]
   \<and> map status (clarifications (run
        [TextSelection 1700000000000 ''1'' ''machine learning algorithms'',
         Submit ''1700000000000'' ''explain simply'',
         Resume 0 (HttpResponse True (Inr (Some ''It is a method to find the best solution step by step.''))),
         Submit ''1700000000000'' ''explain again'']
        (initial_state 0))) = [Pending]"
  by (simp add: handleTextSelection_def new_clarification_def initial_state_def Let_def
      handleClarificationSubmit_def resume_def try_body_def on_success_def toString.simps digit_char_def)

text \<open>
  C1, amended: every clarification is created with status pending; the status of every
  stored clarification of a reachable state is pending or completed; and one event changes
  the status of a stored clarification only to pending, when the event starts a submission
  for its id, or to completed, when the event ends a submission for its id (by success or
  by failure). Its id never changes.
\<close>

theorem status_lifecycle:
  "status (last (clarifications (handleTextSelection now mid seltext s))) = Pending
   \<and> (\<forall>c \<in> set (clarifications (run es (initial_state t0))).
         status_literal (status c) = ''pending'' \<or> status_literal (status c) = ''completed'')
   \<and> (\<forall>i < length (clarifications s).
         id_c (clarifications (step e s) ! i) = id_c (clarifications s ! i) \<and>
         (status (clarifications (step e s) ! i) = status (clarifications s ! i)
          \<or> status (clarifications (step e s) ! i) = Pending
              \<and> starts e s = Some (id_c (clarifications s ! i))
          \<or> status (clarifications (step e s) ! i) = Completed
              \<and> ends e s = Some (id_c (clarifications s ! i))))"
proof (intro conjI ballI allI impI)
  show "status (last (clarifications (handleTextSelection now mid seltext s))) = Pending"
    by (simp add: clarifications_handleTextSelection new_clarification_def)
next
  fix c
  show "status_literal (status c) = ''pending'' \<or> status_literal (status c) = ''completed''"
    using status_literal_cases [of "status c"] by simp
next
  fix i
  assume "i < length (clarifications s)"
  then show "id_c (clarifications (step e s) ! i) = id_c (clarifications s ! i)"
    using step_transition by blast
next
  fix i
  assume "i < length (clarifications s)"
  then show "status (clarifications (step e s) ! i) = status (clarifications s ! i)
          \<or> status (clarifications (step e s) ! i) = Pending
              \<and> starts e s = Some (id_c (clarifications s ! i))
          \<or> status (clarifications (step e s) ! i) = Completed
              \<and> ends e s = Some (id_c (clarifications s ! i))"
    using step_transition by blast
qed

theorem status_lifecycle_witness:
  "(0::nat) < length (clarifications (handleTextSelection 1700000000000 ''1'' ''machine learning algorithms'' (initial_state 0)))
   \<and> status (clarifications (step (Submit ''1700000000000'' ''explain simply'')
         (handleTextSelection 1700000000000 ''1'' ''machine learning algorithms'' (initial_state 0))) ! 0) = Pending
   \<and> starts (Submit ''1700000000000'' ''explain simply'')
         (handleTextSelection 1700000000000 ''1'' ''machine learning algorithms'' (initial_state 0))
       = Some (id_c (clarifications (handleTextSelection 1700000000000 ''1'' ''machine learning algorithms'' (initial_state 0)) ! 0))
   \<and> status_literal (status (clarifications
         (run [TextSelection 1700000000000 ''1'' ''machine learning algorithms''] (initial_state 0)) ! 0))
       = ''pending''"
  using status_lifecycle [of 1700000000000 "''1''" "''machine learning algorithms''"
      "handleTextSelection 1700000000000 ''1'' ''machine learning algorithms'' (initial_state 0)"
      "[TextSelection 1700000000000 ''1'' ''machine learning algorithms'']" 0
      "Submit ''1700000000000'' ''explain simply''"]
  by (simp add: handleTextSelection_def new_clarification_def initial_state_def Let_def
      handleClarificationSubmit_def toString.simps digit_char_def)

subsection \<open>C2: a rejected clarification call\<close>

text \<open>
  C2, as stated, fails: when the fetch rejects, the clarification's status becomes
  \<open>'completed'\<close>, not failed.
\<close>

theorem rejection_status_counterexample:
  "map (\<lambda>c. status_literal (status c)) (clarifications (run
      [TextSelection 1700000000000 ''1'' ''machine learning algorithms'',
       Submit ''1700000000000'' ''which ones?'',
       Resume 0 (FetchRejected (Error ''Failed to fetch''))]
      (initial_state 0))) = [''completed'']
   \<and> ''completed'' \<noteq> ''failed''"
  by (simp add: handleTextSelection_def new_clarification_def initial_state_def Let_def
      handleClarificationSubmit_def resume_def try_body_def on_error_def toString.simps digit_char_def)

text \<open>
  C2, amended: when the clarification call rejects (the fetch promise rejects, the response
  is not ok, or its body cannot be read), the resumed submit sets the status of every stored
  clarification with the submitted id to completed and stores the fixed, non-empty error
  text as its response; its other fields are unchanged.
\<close>

theorem rejection_stores_error_text:
  "try_body r = Inl err \<Longrightarrow> i < length (clarifications s) \<Longrightarrow> id_c (clarifications s ! i) = fst p \<Longrightarrow>
   clarifications (resume p r s) ! i
     = (clarifications s ! i)\<lparr> response := Some error_text, status := Completed \<rparr>
   \<and> status (clarifications (resume p r s) ! i) = Completed
   \<and> response (clarifications (resume p r s) ! i) = Some error_text
   \<and> error_text \<noteq> []
   \<and> try_body (FetchRejected err) = Inl err
   \<and> try_body (HttpResponse False body) = Inl (Error ''Failed to get clarification'')
   \<and> try_body (HttpResponse True (Inl err)) = Inl err"
  by (simp add: clarifications_resume error_text_nonempty try_body_def)

text \<open>
  C2, witness: a response that is not ok, for the clarification created and submitted
  before.
\<close>

theorem rejection_stores_error_text_witness:
  "try_body (HttpResponse False (Inr None)) = Inl (Error ''Failed to get clarification'')
   \<and> (0::nat) < length (clarifications (run
        [TextSelection 1700000000000 ''1'' ''machine learning algorithms'',
         Submit ''1700000000000'' ''which ones?''] (initial_state 0)))
   \<and> id_c (clarifications (run
        [TextSelection 1700000000000 ''1'' ''machine learning algorithms'',
         Submit ''1700000000000'' ''which ones?''] (initial_state 0)) ! 0)
       = fst (''1700000000000'', new_clarification 1700000000000 ''1'' ''machine learning algorithms'')
   \<and> clarifications (resume (''1700000000000'', new_clarification 1700000000000 ''1'' ''machine learning algorithms'')
        (HttpResponse False (Inr None))
        (run [TextSelection 1700000000000 ''1'' ''machine learning algorithms'',
              Submit ''1700000000000'' ''which ones?''] (initial_state 0))) ! 0
     = \<lparr> id_c = ''1700000000000'', messageId = ''1'', selectedText = ''machine learning algorithms'',
         request = ''which ones?'',
         response = Some ''Sorry, I encountered an error while generating this clarification. Please try again.'',
         status = Completed \<rparr>"
  using rejection_stores_error_text [of "HttpResponse False (Inr None)" "Error ''Failed to get clarification''" 0
      "run [TextSelection 1700000000000 ''1'' ''machine learning algorithms'',
            Submit ''1700000000000'' ''which ones?''] (initial_state 0)"
      "(''1700000000000'', new_clarification 1700000000000 ''1'' ''machine learning algorithms'')"]
  by (simp add: handleTextSelection_def new_clarification_def initial_state_def Let_def
      handleClarificationSubmit_def try_body_def error_text_def toString.simps digit_char_def)

subsection \<open>C3: one active clarification\<close>

text \<open>
  C3: in every reachable state the panel presents at most one clarification, and it
  carries the id of a stored one. \<open>handleTextSelection\<close> makes the new clarification
  (created pending) the active one and appends it to the stored ones, which are unchanged,
  the previously active one among them; after two creations only the second is presented.
\<close>

theorem one_active:
  "length (presented (run es (initial_state t0))) \<le> 1
   \<and> consistent (run es (initial_state t0))
   \<and> activeClarification (handleTextSelection now mid seltext s) = Some (new_clarification now mid seltext)
   \<and> status (new_clarification now mid seltext) = Pending
   \<and> clarifications (handleTextSelection now mid seltext s) = clarifications s @ [new_clarification now mid seltext]
   \<and> presented (handleTextSelection now' mid' seltext' (handleTextSelection now mid seltext s))
       = [new_clarification now' mid' seltext']
   \<and> clarifications (handleTextSelection now' mid' seltext' (handleTextSelection now mid seltext s))
       = clarifications s @ [new_clarification now mid seltext, new_clarification now' mid' seltext']"
proof (intro conjI)
  show "length (presented (run es (initial_state t0))) \<le> 1"
    by (simp add: presented_def split: option.splits)
  show "consistent (run es (initial_state t0))"
    by (rule consistent_run) (rule consistent_initial)
qed (simp_all add: clarifications_handleTextSelection active_handleTextSelection presented_def
      new_clarification_def)

subsection \<open>C4: the round trip of a selected range\<close>



subsection \<open>C5: a completion changes only the submitted id\<close>

text \<open>
  C5, as stated, fails: two clarifications created on message 1 at the same clock reading
  share their id; one submit for that id is in flight, and its completion rewrites the
  status and the response of both.
\<close>

theorem shared_id_completion_counterexample:
  "map (\<lambda>c. (id_c c, selectedText c, status c, response c)) (clarifications (run
      [TextSelection 1700000000000 ''1'' ''machine learning algorithms'',
       TextSelection 1700000000000 ''1'' ''any other topic'',
       Submit ''1700000000000'' ''which ones?'']
      (initial_state 0)))
     = [(''1700000000000'', ''machine learning algorithms'', Pending, None),
        (''1700000000000'', ''any other topic'', Pending, None)]
   \<and> map (\<lambda>c. (id_c c, selectedText c, status c, response c)) (clarifications (run
      [TextSelection 1700000000000 ''1'' ''machine learning algorithms'',
       TextSelection 1700000000000 ''1'' ''any other topic'',
       Submit ''1700000000000'' ''which ones?'',
       Resume 0 (HttpResponse True (Inr (Some ''Supervised and unsupervised ones.'')))]
      (initial_state 0)))
     = [(''1700000000000'', ''machine learning algorithms'', Completed, Some ''Supervised and unsupervised ones.''),
        (''1700000000000'', ''any other topic'', Completed, Some ''Supervised and unsupervised ones.'')]
   \<and> map fst (inflight (run
      [TextSelection 1700000000000 ''1'' ''machine learning algorithms'',
       TextSelection 1700000000000 ''1'' ''any other topic'',
       Submit ''1700000000000'' ''which ones?'']
      (initial_state 0))) = [''1700000000000'']"
  by (simp add: handleTextSelection_def new_clarification_def initial_state_def Let_def
      handleClarificationSubmit_def resume_def try_body_def on_success_def toString.simps digit_char_def)

text \<open>
  C5, amended: when a suspended submit for the id \<open>k\<close> resumes, with success or with
  failure, the number of stored clarifications is unchanged and every stored clarification
  whose id is not \<open>k\<close> is unchanged in every field; so is the presented clarification
  when its id is not \<open>k\<close>.
\<close>

theorem completion_frame:
  "ends e s = Some k \<Longrightarrow> i < length (clarifications s) \<Longrightarrow> id_c (clarifications s ! i) \<noteq> k \<Longrightarrow>
   length (clarifications (step e s)) = length (clarifications s)
   \<and> clarifications (step e s) ! i = clarifications s ! i
   \<and> (list_all (\<lambda>a. id_c a \<noteq> k) (presented s) \<longrightarrow> presented (step e s) = presented s)"
  by (simp add: length_step_ends nth_step_ends presented_step_ends)

text \<open>
  C5, witness: two clarifications on message 1 with different ids, both submitted; the
  first completes and the second is as it was.
\<close>

theorem completion_frame_witness:
  "ends (Resume 0 (HttpResponse True (Inr (Some ''Supervised and unsupervised ones.''))))
     (run [TextSelection 1700000000000 ''1'' ''machine learning algorithms'',
           TextSelection 1700000000250 ''1'' ''any other topic'',
           Submit ''1700000000000'' ''which ones?'',
           Submit ''1700000000250'' ''such as?''] (initial_state 0)) = Some ''1700000000000''
   \<and> id_c (clarifications
     (run [TextSelection 1700000000000 ''1'' ''machine learning algorithms'',
           TextSelection 1700000000250 ''1'' ''any other topic'',
           Submit ''1700000000000'' ''which ones?'',
           Submit ''1700000000250'' ''such as?''] (initial_state 0)) ! 1) \<noteq> ''1700000000000''
   \<and> clarifications (step (Resume 0 (HttpResponse True (Inr (Some ''Supervised and unsupervised ones.''))))
     (run [TextSelection 1700000000000 ''1'' ''machine learning algorithms'',
           TextSelection 1700000000250 ''1'' ''any other topic'',
           Submit ''1700000000000'' ''which ones?'',
           Submit ''1700000000250'' ''such as?''] (initial_state 0))) ! 1
     = \<lparr> id_c = ''1700000000250'', messageId = ''1'', selectedText = ''any other topic'',
         request = ''such as?'', response = None, status = Pending \<rparr>
   \<and> map status (clarifications (step (Resume 0 (HttpResponse True (Inr (Some ''Supervised and unsupervised ones.''))))
     (run [TextSelection 1700000000000 ''1'' ''machine learning algorithms'',
           TextSelection 1700000000250 ''1'' ''any other topic'',
           Submit ''1700000000000'' ''which ones?'',
           Submit ''1700000000250'' ''such as?''] (initial_state 0)))) = [Completed, Pending]
   \<and> list_all (\<lambda>a. id_c a \<noteq> ''1700000000000'') (presented
     (run [TextSelection 1700000000000 ''1'' ''machine learning algorithms'',
           TextSelection 1700000000250 ''1'' ''any other topic'',
           Submit ''1700000000000'' ''which ones?'',
           Submit ''1700000000250'' ''such as?''] (initial_state 0)))
   \<and> map request (presented (step (Resume 0 (HttpResponse True (Inr (Some ''Supervised and unsupervised ones.''))))
     (run [TextSelection 1700000000000 ''1'' ''machine learning algorithms'',
           TextSelection 1700000000250 ''1'' ''any other topic'',
           Submit ''1700000000000'' ''which ones?'',
           Submit ''1700000000250'' ''such as?''] (initial_state 0)))) = [[]]"
  using completion_frame [of "Resume 0 (HttpResponse True (Inr (Some ''Supervised and unsupervised ones.'')))"
     "run [TextSelection 1700000000000 ''1'' ''machine learning algorithms'',
           TextSelection 1700000000250 ''1'' ''any other topic'',
           Submit ''1700000000000'' ''which ones?'',
           Submit ''1700000000250'' ''such as?''] (initial_state 0)" "''1700000000000''" 1]
  by (simp add: handleTextSelection_def new_clarification_def initial_state_def Let_def
      handleClarificationSubmit_def resume_def try_body_def on_success_def toString.simps digit_char_def presented_def)

subsection \<open>C6: submit with an unknown id\<close>

text \<open>
  C6, as stated, fails: submit with an id that no stored clarification has returns
  normally, with the state as it was and nothing written to the console.
\<close>

theorem unknown_id_counterexample:
  "''42'' \<notin> set (map id_c (clarifications
      (handleTextSelection 1700000000000 ''1'' ''machine learning algorithms'' (initial_state 0))))
   \<and> handleClarificationSubmit ''42'' ''which ones?''
        (handleTextSelection 1700000000000 ''1'' ''machine learning algorithms'' (initial_state 0))
       = Inr (handleTextSelection 1700000000000 ''1'' ''machine learning algorithms'' (initial_state 0))
   \<and> console (handleTextSelection 1700000000000 ''1'' ''machine learning algorithms'' (initial_state 0)) = []"
  by (simp add: handleTextSelection_def new_clarification_def initial_state_def Let_def
      handleClarificationSubmit_def toString.simps digit_char_def)

text \<open>
  C6, amended: submit with an id that no stored clarification has is a silent no-op: the
  call returns normally and the state, the requests sent and the console are unchanged.
\<close>

theorem unknown_id_silent_return:
  "k \<notin> set (map id_c (clarifications s)) \<Longrightarrow>
   handleClarificationSubmit k req s = Inr s \<and> step (Submit k req) s = s"
proof -
  assume "k \<notin> set (map id_c (clarifications s))"
  then have "find (\<lambda>c. id_c c = k) (clarifications s) = None"
    by (auto simp: find_None_iff)
  then have "handleClarificationSubmit k req s = Inr s"
    by (rule handleClarificationSubmit_unknown)
  then show ?thesis by simp
qed

text \<open>
  C6, witness: the id 42 after one creation.
\<close>

theorem unknown_id_silent_return_witness:
  "''42'' \<notin> set (map id_c (clarifications
      (handleTextSelection 1700000000000 ''1'' ''machine learning algorithms'' (initial_state 0))))
   \<and> step (Submit ''42'' ''which ones?'')
        (handleTextSelection 1700000000000 ''1'' ''machine learning algorithms'' (initial_state 0))
       = handleTextSelection 1700000000000 ''1'' ''machine learning algorithms'' (initial_state 0)"
  using unknown_id_silent_return [of "''42''"
      "handleTextSelection 1700000000000 ''1'' ''machine learning algorithms'' (initial_state 0)" "''which ones?''"]
  by (simp add: handleTextSelection_def new_clarification_def initial_state_def Let_def
      toString.simps digit_char_def)

subsection \<open>C7: a blank request\<close>

text \<open>
  C7: \<open>onSubmit\<close> is reached through the panel's \<open>handleSubmit\<close> only, which
  holds the guard. For every clarification the panel shows, a submit with a blank text box
  starts no submission and changes nothing: no status, no stored request, no request sent,
  and the text box keeps its content. In every state reached by events of the user
  interface, no blank request has been sent or stored.
\<close>

theorem blank_request_noop:
  "trim draft = [] \<Longrightarrow>
   panel_handleSubmit shown draft s = (draft, s)
   \<and> step (PanelSubmit draft) s = s
   \<and> starts (PanelSubmit draft) s = None
   \<and> (list_all ui_event es \<longrightarrow> no_blank_request (run es (initial_state t0)))"
  by (simp add: panel_handleSubmit_def no_blank_request_run no_blank_request_initial
      split: option.splits)

text \<open>
  C7, witness: a text box holding a space, a tab and a line feed, then a question, then
  an empty text box.
\<close>

theorem blank_request_noop_witness:
  "trim [CHR '' '', CHR 0x09, CHR 0x0A] = []
   \<and> panel_handleSubmit (new_clarification 1700000000000 ''1'' ''machine learning algorithms'')
        [CHR '' '', CHR 0x09, CHR 0x0A]
        (handleTextSelection 1700000000000 ''1'' ''machine learning algorithms'' (initial_state 0))
       = ([CHR '' '', CHR 0x09, CHR 0x0A],
          handleTextSelection 1700000000000 ''1'' ''machine learning algorithms'' (initial_state 0))
   \<and> list_all ui_event
        [TextSelection 1700000000000 ''1'' ''machine learning algorithms'',
         PanelSubmit [CHR '' '', CHR 0x09, CHR 0x0A],
         PanelSubmit ''which ones?'',
         PanelSubmit []]
   \<and> map body_userQuestion (fetches (run
        [TextSelection 1700000000000 ''1'' ''machine learning algorithms'',
         PanelSubmit [CHR '' '', CHR 0x09, CHR 0x0A],
         PanelSubmit ''which ones?'',
         PanelSubmit []] (initial_state 0))) = [''which ones?'']
   \<and> map request (clarifications (run
        [TextSelection 1700000000000 ''1'' ''machine learning algorithms'',
         PanelSubmit [CHR '' '', CHR 0x09, CHR 0x0A],
         PanelSubmit ''which ones?'',
         PanelSubmit []] (initial_state 0))) = [''which ones?'']
   \<and> clarifications (run
        [TextSelection 1700000000000 ''1'' ''machine learning algorithms'',
         PanelSubmit [CHR '' '', CHR 0x09, CHR 0x0A]] (initial_state 0))
       = [new_clarification 1700000000000 ''1'' ''machine learning algorithms'']
   \<and> fetches (run
        [TextSelection 1700000000000 ''1'' ''machine learning algorithms'',
         PanelSubmit [CHR '' '', CHR 0x09, CHR 0x0A]] (initial_state 0)) = []"
  using blank_request_noop [of "[CHR '' '', CHR 0x09, CHR 0x0A]"
      "new_clarification 1700000000000 ''1'' ''machine learning algorithms''"
      "handleTextSelection 1700000000000 ''1'' ''machine learning algorithms'' (initial_state 0)"
      "[TextSelection 1700000000000 ''1'' ''machine learning algorithms'',
        PanelSubmit [CHR '' '', CHR 0x09, CHR 0x0A],
        PanelSubmit ''which ones?'',
        PanelSubmit []]" 0]
  by (simp add: trim_def is_space_def handleTextSelection_def new_clarification_def initial_state_def
      Let_def panel_handleSubmit_def handleClarificationSubmit_def toString.simps digit_char_def)

subsection \<open>C8: closing the panel\<close>

text \<open>
  C8: \<open>handleCloseClarification\<close> is \<open>setActiveClarification None\<close>: it changes no
  stored clarification, no suspended call and no request, and the panel then presents
  nothing. A suspended call that resumes after the close is not cancelled: it leaves the
  list of suspended calls, writes the status completed and the response (the reply, or the
  error text when the call was rejected) into every stored clarification with its id, as
  it would have without the close, and the panel still presents nothing.
\<close>

theorem close_frame:
  "handleCloseClarification s = setActiveClarification None s
   \<and> clarifications (handleCloseClarification s) = clarifications s
   \<and> inflight (handleCloseClarification s) = inflight s
   \<and> fetches (handleCloseClarification s) = fetches s
   \<and> presented (handleCloseClarification s) = []
   \<and> clarifications (step (Resume j r) (handleCloseClarification s)) = clarifications (step (Resume j r) s)
   \<and> inflight (step (Resume j r) (handleCloseClarification s)) = inflight (step (Resume j r) s)
   \<and> presented (step (Resume j r) (handleCloseClarification s)) = []
   \<and> (j < length (inflight s) \<longrightarrow>
        clarifications (step (Resume j r) (handleCloseClarification s))
          = map (\<lambda>c. if id_c c = fst (inflight s ! j)
                    then c\<lparr> response := (case try_body r of Inr d \<Rightarrow> d | Inl e \<Rightarrow> Some error_text),
                           status := Completed \<rparr>
                    else c) (clarifications s)
        \<and> inflight (step (Resume j r) (handleCloseClarification s))
          = take j (inflight s) @ drop (Suc j) (inflight s))"
  using clarifications_step_Resume_Close [of j r s] inflight_step_Resume_Close [of j r s]
    step_Resume_Close_clarifications [of j s r] step_Resume_Close_inflight [of j s r]
    step_Resume_Close_presented [of j r s]
  by (simp add: handleCloseClarification_def setActiveClarification_def presented_def)

text \<open>
  C8, witness: a clarification is created and submitted and the panel is closed; the
  reply, or the rejection, still reaches the stored clarification.
\<close>

theorem close_frame_witness:
  "(0::nat) < length (inflight (run
      [TextSelection 1700000000000 ''1'' ''machine learning algorithms'',
       Submit ''1700000000000'' ''which ones?''] (initial_state 0)))
   \<and> clarifications (run
      [TextSelection 1700000000000 ''1'' ''machine learning algorithms'',
       Submit ''1700000000000'' ''which ones?'', Close] (initial_state 0))
     = [\<lparr> id_c = ''1700000000000'', messageId = ''1'', selectedText = ''machine learning algorithms'',
          request = ''which ones?'', response = None, status = Pending \<rparr>]
   \<and> clarifications (run
      [TextSelection 1700000000000 ''1'' ''machine learning algorithms'',
       Submit ''1700000000000'' ''which ones?'', Close,
       Resume 0 (HttpResponse True (Inr (Some ''Supervised and unsupervised ones.'')))] (initial_state 0))
     = [\<lparr> id_c = ''1700000000000'', messageId = ''1'', selectedText = ''machine learning algorithms'',
          request = ''which ones?'', response = Some ''Supervised and unsupervised ones.'',
          status = Completed \<rparr>]
   \<and> clarifications (run
      [TextSelection 1700000000000 ''1'' ''machine learning algorithms'',
       Submit ''1700000000000'' ''which ones?'', Close,
       Resume 0 (FetchRejected (Error ''Failed to fetch''))] (initial_state 0))
     = [\<lparr> id_c = ''1700000000000'', messageId = ''1'', selectedText = ''machine learning algorithms'',
          request = ''which ones?'',
          response = Some ''Sorry, I encountered an error while generating this clarification. Please try again.'',
          status = Completed \<rparr>]
   \<and> inflight (run
      [TextSelection 1700000000000 ''1'' ''machine learning algorithms'',
       Submit ''1700000000000'' ''which ones?'', Close,
       Resume 0 (HttpResponse True (Inr (Some ''Supervised and unsupervised ones.'')))] (initial_state 0)) = []"
  using close_frame [of
      "run [TextSelection 1700000000000 ''1'' ''machine learning algorithms'',
            Submit ''1700000000000'' ''which ones?''] (initial_state 0)"
      0 "HttpResponse True (Inr (Some ''Supervised and unsupervised ones.''))"]
  by (simp add: handleTextSelection_def new_clarification_def initial_state_def Let_def
      handleClarificationSubmit_def resume_def try_body_def on_success_def on_error_def error_text_def
      handleCloseClarification_def setActiveClarification_def toString.simps digit_char_def)

subsection \<open>C9: ids of clarifications\<close>

text \<open>
  C9, as stated, fails: two clarifications created at the same clock reading have the
  same id.
\<close>

theorem same_millisecond_ids_counterexample:
  "map id_c (clarifications (run
      [TextSelection 1700000000000 ''1'' ''machine learning algorithms'',
       TextSelection 1700000000000 ''1'' ''any other topic'']
      (initial_state 0))) = [''1700000000000'', ''1700000000000'']
   \<and> map selectedText (clarifications (run
      [TextSelection 1700000000000 ''1'' ''machine learning algorithms'',
       TextSelection 1700000000000 ''1'' ''any other topic'']
      (initial_state 0))) = [''machine learning algorithms'', ''any other topic'']"
  by (simp add: handleTextSelection_def new_clarification_def initial_state_def Let_def
      toString.simps digit_char_def)

text \<open>
  C9, amended: when the clock readings of the creations of a run increase strictly, the
  stored clarifications have distinct ids, and the numbers their ids denote are the clock
  readings, so they increase in the order of creation.
\<close>

theorem ids_generation_ordered:
  "sorted_wrt (<) (clock_readings es) \<Longrightarrow>
     map (\<lambda>c. fromString (id_c c)) (clarifications (run es (initial_state t0))) = clock_readings es
     \<and> sorted_wrt (<) (map (\<lambda>c. fromString (id_c c)) (clarifications (run es (initial_state t0))))
     \<and> distinct (map id_c (clarifications (run es (initial_state t0))))"
proof -
  assume inc: "sorted_wrt (<) (clock_readings es)"
  let ?cs = "clarifications (run es (initial_state t0))"
  have ids: "map id_c ?cs = map toString (clock_readings es)"
    using ids_run [of es "initial_state t0"] by (simp add: initial_state_def)
  have "map (\<lambda>c. fromString (id_c c)) ?cs = map fromString (map id_c ?cs)"
    by simp
  also have "\<dots> = clock_readings es"
    by (simp add: ids fromString_toString comp_def)
  finally have vals: "map (\<lambda>c. fromString (id_c c)) ?cs = clock_readings es" .
  have "distinct (clock_readings es)"
    using inc by (simp add: strict_sorted_iff)
  moreover have "inj_on toString (set (clock_readings es))"
    by (rule inj_on_inverseI [where g = fromString]) (simp add: fromString_toString)
  ultimately have "distinct (map id_c ?cs)"
    by (simp add: ids distinct_map)
  with vals inc show ?thesis by simp
qed

text \<open>
  C9, witness: two creations 250 ms apart.
\<close>

theorem ids_generation_ordered_witness:
  "sorted_wrt (<) (clock_readings
      [TextSelection 1700000000000 ''1'' ''machine learning algorithms'',
       Submit ''1700000000000'' ''which ones?'',
       TextSelection 1700000000250 ''1'' ''any other topic''])
   \<and> map id_c (clarifications (run
      [TextSelection 1700000000000 ''1'' ''machine learning algorithms'',
       Submit ''1700000000000'' ''which ones?'',
       TextSelection 1700000000250 ''1'' ''any other topic'']
      (initial_state 0))) = [''1700000000000'', ''1700000000250'']
   \<and> distinct (map id_c (clarifications (run
      [TextSelection 1700000000000 ''1'' ''machine learning algorithms'',
       Submit ''1700000000000'' ''which ones?'',
       TextSelection 1700000000250 ''1'' ''any other topic'']
      (initial_state 0))))"
  using ids_generation_ordered [of
      "[TextSelection 1700000000000 ''1'' ''machine learning algorithms'',
        Submit ''1700000000000'' ''which ones?'',
        TextSelection 1700000000250 ''1'' ''any other topic'']" 0]
  by (simp add: handleTextSelection_def new_clarification_def initial_state_def Let_def
      handleClarificationSubmit_def toString.simps digit_char_def)

subsection \<open>C10: the active clarification after a successful submit\<close>

text \<open>
  C10: when a submit for the active clarification's id succeeds, the panel presents the
  clarification found before the submit, with the new response and the status completed:
  its request is the request from before the submit, while every stored clarification with
  that id has the submitted request.
\<close>

theorem active_rebuilt_from_snapshot:
  assumes found: "find (\<lambda>c. id_c c = k) (clarifications s) = Some found"
    and active: "activeClarification s = Some a"
    and same: "id_c a = k"
  shows "presented (step (Resume (length (inflight s)) (HttpResponse True (Inr d))) (step (Submit k req) s))
           = [found\<lparr> response := d, status := Completed \<rparr>]
         \<and> map request (presented (step (Resume (length (inflight s)) (HttpResponse True (Inr d))) (step (Submit k req) s)))
           = [request found]
         \<and> list_all (\<lambda>c. id_c c = k)
             (presented (step (Resume (length (inflight s)) (HttpResponse True (Inr d))) (step (Submit k req) s)))
         \<and> map request (filter (\<lambda>c. id_c c = k)
             (clarifications (step (Resume (length (inflight s)) (HttpResponse True (Inr d))) (step (Submit k req) s))))
           = replicate (length (filter (\<lambda>c. id_c c = k) (clarifications s))) req
         \<and> filter (\<lambda>c. id_c c = k) (clarifications s) \<noteq> []"
proof -
  obtain s' where s': "handleClarificationSubmit k req s = Inr s'"
    using submit_total by blast
  let ?j = "length (inflight s)"
  let ?r = "HttpResponse True (Inr d)"
  have st: "step (Submit k req) s = s'"
    by (simp add: s')
  have infl: "?j < length (inflight s')" "inflight s' ! ?j = (k, found)"
    using nth_inflight_submit [OF found s'] by simp_all
  have act': "activeClarification s' = Some a"
    using active_submit [OF s'] active by simp
  have cl': "clarifications s' =
      map (\<lambda>c. if id_c c = k then c\<lparr> status := Pending, request := req \<rparr> else c) (clarifications s)"
    using clarifications_submit [OF s'] found by simp
  let ?s2 = "step (Resume ?j ?r) s'"
  have s2: "?s2 = on_success k found d (s'\<lparr> inflight := take ?j (inflight s') @ drop (Suc ?j) (inflight s') \<rparr>)"
    using infl by (simp add: resume_def try_body_def)
  have p: "presented ?s2 = [found\<lparr> response := d, status := Completed \<rparr>]"
    unfolding s2 by (simp add: on_success_def presented_def act' same)
  have idf: "id_c found = k"
    using found by (rule find_id)
  have cl2: "clarifications ?s2 =
      map (\<lambda>c. if id_c c = k then c\<lparr> status := Pending, request := req, response := d, status := Completed \<rparr> else c)
        (clarifications s)"
    unfolding s2 by (simp add: on_success_def cl' comp_def)
  have req: "map request (filter (\<lambda>c. id_c c = k) (clarifications ?s2))
      = replicate (length (filter (\<lambda>c. id_c c = k) (clarifications s))) req"
    unfolding cl2 by (rule requests_after_update) simp_all
  have ne: "filter (\<lambda>c. id_c c = k) (clarifications s) \<noteq> []"
    using found by (auto simp: filter_empty_conv find_Some_iff)
  from p idf req ne show ?thesis
    unfolding st by simp
qed

text \<open>
  C10, witness: the first submit of a clarification: the presented request is empty and
  the stored one is the question asked.
\<close>

theorem active_rebuilt_from_snapshot_witness:
  "find (\<lambda>c. id_c c = ''1700000000000'')
     (clarifications (handleTextSelection 1700000000000 ''1'' ''machine learning algorithms'' (initial_state 0)))
     = Some (new_clarification 1700000000000 ''1'' ''machine learning algorithms'')
   \<and> activeClarification (handleTextSelection 1700000000000 ''1'' ''machine learning algorithms'' (initial_state 0))
     = Some (new_clarification 1700000000000 ''1'' ''machine learning algorithms'')
   \<and> id_c (new_clarification 1700000000000 ''1'' ''machine learning algorithms'') = ''1700000000000''
   \<and> map request (presented (run
        [TextSelection 1700000000000 ''1'' ''machine learning algorithms'',
         Submit ''1700000000000'' ''which ones?'',
         Resume 0 (HttpResponse True (Inr (Some ''Supervised and unsupervised ones.'')))]
        (initial_state 0))) = [[]]
   \<and> map request (clarifications (run
        [TextSelection 1700000000000 ''1'' ''machine learning algorithms'',
         Submit ''1700000000000'' ''which ones?'',
         Resume 0 (HttpResponse True (Inr (Some ''Supervised and unsupervised ones.'')))]
        (initial_state 0))) = [''which ones?'']
   \<and> map response (presented (run
        [TextSelection 1700000000000 ''1'' ''machine learning algorithms'',
         Submit ''1700000000000'' ''which ones?'',
         Resume 0 (HttpResponse True (Inr (Some ''Supervised and unsupervised ones.'')))]
        (initial_state 0))) = [Some ''Supervised and unsupervised ones.'']"
  using active_rebuilt_from_snapshot [of "''1700000000000''"
      "handleTextSelection 1700000000000 ''1'' ''machine learning algorithms'' (initial_state 0)"
      "new_clarification 1700000000000 ''1'' ''machine learning algorithms''"
      "new_clarification 1700000000000 ''1'' ''machine learning algorithms''"
      "Some ''Supervised and unsupervised ones.''" "''which ones?''"]
  by (simp add: handleTextSelection_def new_clarification_def initial_state_def Let_def presented_def
      handleClarificationSubmit_def resume_def try_body_def on_success_def toString.simps digit_char_def)

end
